theory Spec2Isabelle
  imports Main "HOL-Library.Word" "HOL-Library.List_Lexorder" "HOL-Library.Char_ord"
    "HOL-Library.AList"
begin

unbundle bit_operations_syntax

section \<open>Data model of package wxpay\<close>

text \<open>
  Go strings are byte sequences and compare byte-wise; \<^typ>\<open>string\<close> with the
  lexicographic order of \<^theory_text>\<open>List_Lexorder\<close> over the byte order of
  \<^theory_text>\<open>Char_ord\<close> is that comparison. A \<^verbatim>\<open>[]byte\<close> is a list of
  8-bit words.
\<close>

type_synonym byte = "8 word"

text \<open>
  Modelled from the spec: the declaration of \<^verbatim>\<open>Params\<close> and its methods is not under
  src/. The spec's ParameterSet is a mapping from string keys to string values with unique
  keys and no inherent order. It is kept as an association list: the list order stands for
  the (unspecified) iteration order of \<^verbatim>\<open>range params\<close>; \<^verbatim>\<open>params[k] = v\<close>
  overwrites the entry of an existing key and adds one otherwise; reading a key that is
  absent gives the empty string.
\<close>

type_synonym Params = "(string \<times> string) list"

definition ContainsKey :: "Params \<Rightarrow> string \<Rightarrow> bool" where
  "ContainsKey p key = (map_of p key \<noteq> None)"

definition GetString :: "Params \<Rightarrow> string \<Rightarrow> string" where
  "GetString p k = (case map_of p k of None \<Rightarrow> [] | Some s \<Rightarrow> s)"

definition SetString :: "Params \<Rightarrow> string \<Rightarrow> string \<Rightarrow> Params" where
  "SetString p k s = AList.update k s p"

text \<open>The keys visited by \<^verbatim>\<open>for k := range params\<close>, in iteration order.\<close>

definition range_keys :: "Params \<Rightarrow> string list" where
  "range_keys p = map fst p"

text \<open>account.go: \<^verbatim>\<open>certData\<close> is a slice, \<^verbatim>\<open>nil\<close> until it is set.\<close>

record Account =
  appID :: string
  mchID :: string
  apiKey :: string
  certData :: "byte list option"
  isSandbox :: bool

definition NewAccount :: "string \<Rightarrow> string \<Rightarrow> string \<Rightarrow> bool \<Rightarrow> Account" where
  "NewAccount a m k sandbox =
     \<lparr>appID = a, mchID = m, apiKey = k, certData = None, isSandbox = sandbox\<rparr>"

definition SetCertData :: "Account \<Rightarrow> byte list option \<Rightarrow> Account" where
  "SetCertData a cd = a\<lparr>certData := cd\<rparr>"

text \<open>client.go, lines 21-52.\<close>

record Client =
  account :: Account
  signType :: string
  httpConnectTimeoutMs :: int
  httpReadTimeoutMs :: int

definition SetHttpConnectTimeoutMs :: "Client \<Rightarrow> int \<Rightarrow> Client" where
  "SetHttpConnectTimeoutMs c ms = c\<lparr>httpConnectTimeoutMs := ms\<rparr>"

definition SetHttpReadTimeoutMs :: "Client \<Rightarrow> int \<Rightarrow> Client" where
  "SetHttpReadTimeoutMs c ms = c\<lparr>httpReadTimeoutMs := ms\<rparr>"

definition SetSignType :: "Client \<Rightarrow> string \<Rightarrow> Client" where
  "SetSignType c st = c\<lparr>signType := st\<rparr>"

definition SetAccount :: "Client \<Rightarrow> Account \<Rightarrow> Client" where
  "SetAccount c a = c\<lparr>account := a\<rparr>"

text \<open>The error values that client.go creates, and the ones the transport hands back.\<close>

datatype error =
    ErrCertDataEmpty
  | ErrNoReturnCode
  | ErrInvalidSign
  | ErrInvalidReturnCode
  | ErrTransport string

text \<open>
  One HTTP POST as \<^verbatim>\<open>http.Client.Post\<close> issues it: the client certificate of the
  TLS configuration (none on the plain path), the URL, the content type and the body.
\<close>

type_synonym Certificate = "byte list"

record Request =
  req_cert :: "Certificate option"
  req_url :: string
  req_contentType :: string
  req_body :: string

text \<open>The network as the program sees it: the requests issued so far, oldest first.\<close>

type_synonym Network = "Request list"

text \<open>
  What the two source files use and do not declare. The string constants \<^verbatim>\<open>MD5\<close>,
  \<^verbatim>\<open>HMACSHA256\<close>, \<^verbatim>\<open>MchToCashTp\<close> and the endpoint URLs, the XML codec
  (\<^verbatim>\<open>XmlToMap\<close>, \<^verbatim>\<open>MapToXml\<close>) and \<^verbatim>\<open>pkcs12ToPem\<close> are declared
  elsewhere in the package, and the answer of the remote server is outside the program:
  all are parameters of the model. \<^verbatim>\<open>http_Post\<close> gives, for a request, either the
  error of \<^verbatim>\<open>Post\<close> or of reading the body, or the body read.
  \<^verbatim>\<open>pkcs12ToPem\<close> has no error result in client.go and is taken to return a
  certificate for every archive and passphrase.
\<close>

record Env =
  MD5 :: string
  HMACSHA256 :: string
  MchToCashTp :: string
  DownloadBillUrl :: string
  SandboxDownloadBillUrl :: string
  DownloadFundFlowUrl :: string
  SandboxDownloadFundFlowUrl :: string
  XmlToMap :: "string \<Rightarrow> Params"
  MapToXml :: "Params \<Rightarrow> string"
  pkcs12ToPem :: "byte list \<Rightarrow> string \<Rightarrow> Certificate"
  http_Post :: "Request \<Rightarrow> error + string"

text \<open>
  Modelled from the spec: the constants \<^verbatim>\<open>Sign\<close>, \<^verbatim>\<open>Success\<close> and
  \<^verbatim>\<open>Fail\<close> are declared outside src/. The spec gives the status values
  \<^verbatim>\<open>SUCCESS\<close> and \<^verbatim>\<open>FAIL\<close> and one reserved signature-field key, which
  client.go writes as the literal \<^verbatim>\<open>"sign"\<close> (lines 66 and 137).
\<close>

definition Sign_key :: string where
  "Sign_key = ''sign''"

definition Success :: string where
  "Success = ''SUCCESS''"

definition Fail :: string where
  "Fail = ''FAIL''"

definition bodyType :: string where
  "bodyType = ''application/xml; charset=utf-8''"

section \<open>The library functions that Sign calls\<close>

subsection \<open>crypto/md5 (RFC 1321)\<close>

definition md5_shifts :: "nat list" where
  "md5_shifts = [7, 12, 17, 22, 7, 12, 17, 22, 7, 12, 17, 22, 7, 12, 17, 22,
                 5, 9, 14, 20, 5, 9, 14, 20, 5, 9, 14, 20, 5, 9, 14, 20,
                 4, 11, 16, 23, 4, 11, 16, 23, 4, 11, 16, 23, 4, 11, 16, 23,
                 6, 10, 15, 21, 6, 10, 15, 21, 6, 10, 15, 21, 6, 10, 15, 21]"

definition md5_table :: "32 word list" where
  "md5_table = [
    0xd76aa478, 0xe8c7b756, 0x242070db, 0xc1bdceee, 0xf57c0faf, 0x4787c62a, 0xa8304613, 0xfd469501,
    0x698098d8, 0x8b44f7af, 0xffff5bb1, 0x895cd7be, 0x6b901122, 0xfd987193, 0xa679438e, 0x49b40821,
    0xf61e2562, 0xc040b340, 0x265e5a51, 0xe9b6c7aa, 0xd62f105d, 0x02441453, 0xd8a1e681, 0xe7d3fbc8,
    0x21e1cde6, 0xc33707d6, 0xf4d50d87, 0x455a14ed, 0xa9e3e905, 0xfcefa3f8, 0x676f02d9, 0x8d2a4c8a,
    0xfffa3942, 0x8771f681, 0x6d9d6122, 0xfde5380c, 0xa4beea44, 0x4bdecfa9, 0xf6bb4b60, 0xbebfbc70,
    0x289b7ec6, 0xeaa127fa, 0xd4ef3085, 0x04881d05, 0xd9d4d039, 0xe6db99e5, 0x1fa27cf8, 0xc4ac5665,
    0xf4292244, 0x432aff97, 0xab9423a7, 0xfc93a039, 0x655b59c3, 0x8f0ccc92, 0xffeff47d, 0x85845dd1,
    0x6fa87e4f, 0xfe2ce6e0, 0xa3014314, 0x4e0811a1, 0xf7537e82, 0xbd3af235, 0x2ad7d2bb, 0xeb86d391]"

text \<open>A 32-bit word from four bytes, least significant first, and back.\<close>

fun le32 :: "byte list \<Rightarrow> 32 word" where
  "le32 (b0 # b1 # b2 # b3 # _) =
     ucast b0 OR push_bit 8 (ucast b1) OR push_bit 16 (ucast b2) OR push_bit 24 (ucast b3)"
| "le32 _ = 0"

definition put_le32 :: "32 word \<Rightarrow> byte list" where
  "put_le32 w = [ucast w, ucast (drop_bit 8 w), ucast (drop_bit 16 w), ucast (drop_bit 24 w)]"

definition put_le64 :: "64 word \<Rightarrow> byte list" where
  "put_le64 w = map (\<lambda>i. ucast (drop_bit (8 * i) w)) [0..<8]"

text \<open>The first \<open>k\<close> consecutive pieces of \<open>n\<close> elements.\<close>

fun chunks :: "nat \<Rightarrow> nat \<Rightarrow> 'a list \<Rightarrow> 'a list list" where
  "chunks 0 n xs = []"
| "chunks (Suc k) n xs = take n xs # chunks k n (drop n xs)"

definition pad_zeros :: "nat \<Rightarrow> nat" where
  "pad_zeros len = (119 - len mod 64) mod 64"

definition md5_pad :: "byte list \<Rightarrow> byte list" where
  "md5_pad m = m @ [0x80] @ replicate (pad_zeros (length m)) 0
                 @ put_le64 (push_bit 3 (of_nat (length m)))"

type_synonym md5_state = "32 word \<times> 32 word \<times> 32 word \<times> 32 word"

definition md5_step :: "32 word list \<Rightarrow> nat \<Rightarrow> md5_state \<Rightarrow> md5_state" where
  "md5_step X i s = (case s of (a, b, c, d) \<Rightarrow>
     let f = (if i < 16 then (b AND c) OR (NOT b AND d)
              else if i < 32 then (b AND d) OR (c AND NOT d)
              else if i < 48 then b XOR c XOR d
              else c XOR (b OR NOT d));
         g = (if i < 16 then i
              else if i < 32 then (5 * i + 1) mod 16
              else if i < 48 then (3 * i + 5) mod 16
              else (7 * i) mod 16)
     in (d, b + word_rotl (md5_shifts ! i) (a + f + md5_table ! i + X ! g), b, c))"

definition md5_block :: "md5_state \<Rightarrow> byte list \<Rightarrow> md5_state" where
  "md5_block s blk = (case s of (a0, b0, c0, d0) \<Rightarrow>
     case fold (md5_step (map le32 (chunks 16 4 blk))) [0..<64] s of (a, b, c, d) \<Rightarrow>
       (a0 + a, b0 + b, c0 + c, d0 + d))"

definition md5_Sum :: "byte list \<Rightarrow> byte list" where
  "md5_Sum m = (case foldl md5_block (0x67452301, 0xefcdab89, 0x98badcfe, 0x10325476)
                        (chunks (length (md5_pad m) div 64) 64 (md5_pad m)) of
     (a, b, c, d) \<Rightarrow> put_le32 a @ put_le32 b @ put_le32 c @ put_le32 d)"

subsection \<open>crypto/sha256 (FIPS 180-4) and crypto/hmac (RFC 2104)\<close>

definition sha256_table :: "32 word list" where
  "sha256_table = [
    0x428A2F98, 0x71374491, 0xB5C0FBCF, 0xE9B5DBA5,
    0x3956C25B, 0x59F111F1, 0x923F82A4, 0xAB1C5ED5,
    0xD807AA98, 0x12835B01, 0x243185BE, 0x550C7DC3,
    0x72BE5D74, 0x80DEB1FE, 0x9BDC06A7, 0xC19BF174,
    0xE49B69C1, 0xEFBE4786, 0x0FC19DC6, 0x240CA1CC,
    0x2DE92C6F, 0x4A7484AA, 0x5CB0A9DC, 0x76F988DA,
    0x983E5152, 0xA831C66D, 0xB00327C8, 0xBF597FC7,
    0xC6E00BF3, 0xD5A79147, 0x06CA6351, 0x14292967,
    0x27B70A85, 0x2E1B2138, 0x4D2C6DFC, 0x53380D13,
    0x650A7354, 0x766A0ABB, 0x81C2C92E, 0x92722C85,
    0xA2BFE8A1, 0xA81A664B, 0xC24B8B70, 0xC76C51A3,
    0xD192E819, 0xD6990624, 0xF40E3585, 0x106AA070,
    0x19A4C116, 0x1E376C08, 0x2748774C, 0x34B0BCB5,
    0x391C0CB3, 0x4ED8AA4A, 0x5B9CCA4F, 0x682E6FF3,
    0x748F82EE, 0x78A5636F, 0x84C87814, 0x8CC70208,
    0x90BEFFFA, 0xA4506CEB, 0xBEF9A3F7, 0xC67178F2]"

definition sha256_init :: "32 word list" where
  "sha256_init = [0x6a09e667, 0xbb67ae85, 0x3c6ef372, 0xa54ff53a,
                  0x510e527f, 0x9b05688c, 0x1f83d9ab, 0x5be0cd19]"

fun be32 :: "byte list \<Rightarrow> 32 word" where
  "be32 (b0 # b1 # b2 # b3 # _) =
     push_bit 24 (ucast b0) OR push_bit 16 (ucast b1) OR push_bit 8 (ucast b2) OR ucast b3"
| "be32 _ = 0"

definition put_be32 :: "32 word \<Rightarrow> byte list" where
  "put_be32 w = [ucast (drop_bit 24 w), ucast (drop_bit 16 w), ucast (drop_bit 8 w), ucast w]"

definition put_be64 :: "64 word \<Rightarrow> byte list" where
  "put_be64 w = map (\<lambda>i. ucast (drop_bit (8 * (7 - i)) w)) [0..<8]"

definition sha256_pad :: "byte list \<Rightarrow> byte list" where
  "sha256_pad m = m @ [0x80] @ replicate (pad_zeros (length m)) 0
                    @ put_be64 (push_bit 3 (of_nat (length m)))"

text \<open>The message schedule grows by one word at a time, from 16 words to 64.\<close>

definition sha256_extend :: "32 word list \<Rightarrow> 32 word list" where
  "sha256_extend w =
     (let n = length w; x = w ! (n - 15); y = w ! (n - 2);
          s0 = word_rotr 7 x XOR word_rotr 18 x XOR drop_bit 3 x;
          s1 = word_rotr 17 y XOR word_rotr 19 y XOR drop_bit 10 y
      in w @ [w ! (n - 16) + s0 + w ! (n - 7) + s1])"

definition sha256_schedule :: "byte list \<Rightarrow> 32 word list" where
  "sha256_schedule blk = fold (\<lambda>_. sha256_extend) [16..<64] (map be32 (chunks 16 4 blk))"

fun sha256_step :: "32 word list \<Rightarrow> nat \<Rightarrow> 32 word list \<Rightarrow> 32 word list" where
  "sha256_step W i [a, b, c, d, e, f, g, h] =
     (let S1 = word_rotr 6 e XOR word_rotr 11 e XOR word_rotr 25 e;
          ch = (e AND f) XOR (NOT e AND g);
          t1 = h + S1 + ch + sha256_table ! i + W ! i;
          S0 = word_rotr 2 a XOR word_rotr 13 a XOR word_rotr 22 a;
          maj = (a AND b) XOR (a AND c) XOR (b AND c);
          t2 = S0 + maj
      in [t1 + t2, a, b, c, d + t1, e, f, g])"
| "sha256_step W i s = s"

definition sha256_block :: "32 word list \<Rightarrow> byte list \<Rightarrow> 32 word list" where
  "sha256_block s blk = map2 (+) s (fold (sha256_step (sha256_schedule blk)) [0..<64] s)"

definition sha256_Sum :: "byte list \<Rightarrow> byte list" where
  "sha256_Sum m = concat (map put_be32
     (foldl sha256_block sha256_init
        (chunks (length (sha256_pad m) div 64) 64 (sha256_pad m))))"

text \<open>\<^verbatim>\<open>hmac.New(sha256.New, key)\<close>, \<^verbatim>\<open>Write(msg)\<close>, \<^verbatim>\<open>Sum(nil)\<close>.\<close>

definition hmac_sha256 :: "byte list \<Rightarrow> byte list \<Rightarrow> byte list" where
  "hmac_sha256 key msg =
     (let k = (if length key > 64 then sha256_Sum key else key);
          k0 = k @ replicate (64 - length k) 0;
          ipad = map (\<lambda>b. b XOR 0x36) k0;
          opad = map (\<lambda>b. b XOR 0x5c) k0
      in sha256_Sum (opad @ sha256_Sum (ipad @ msg)))"

subsection \<open>encoding/hex, strings, sort\<close>

definition hextable :: string where
  "hextable = ''0123456789abcdef''"

fun EncodeToString :: "byte list \<Rightarrow> string" where
  "EncodeToString [] = []"
| "EncodeToString (v # src) =
     hextable ! unat (drop_bit 4 v) # hextable ! unat (v AND 0x0f) # EncodeToString src"

text \<open>\<^verbatim>\<open>buf.Bytes()\<close> and \<^verbatim>\<open>[]byte(s)\<close>: the bytes of a string.\<close>

definition Bytes :: "string \<Rightarrow> byte list" where
  "Bytes s = map of_char s"

text \<open>
  \<^verbatim>\<open>strings.ToUpper\<close> on a string of ASCII bytes: a byte from \<open>a\<close> to \<open>z\<close> loses
  32, every other byte stays. (On other strings Go maps whole runes; Sign only passes
  hexadecimal digits, see \<open>EncodeToString_hex\<close>.)
\<close>

definition upper_byte :: "char \<Rightarrow> char" where
  "upper_byte ch = (if CHR ''a'' \<le> ch \<and> ch \<le> CHR ''z''
                    then char_of (of_char ch - (32::nat)) else ch)"

definition ToUpper :: "string \<Rightarrow> string" where
  "ToUpper s = map upper_byte s"

text \<open>
  \<^verbatim>\<open>strings.Index(s, substr)\<close>: the position of the first occurrence of
  \<open>substr\<close> in \<open>s\<close>, or \<open>-1\<close>.
\<close>

fun has_prefix :: "string \<Rightarrow> string \<Rightarrow> bool" where
  "has_prefix s [] = True"
| "has_prefix [] (y # ys) = False"
| "has_prefix (x # xs) (y # ys) = (x = y \<and> has_prefix xs ys)"

fun Index :: "string \<Rightarrow> string \<Rightarrow> int" where
  "Index [] substr = (if substr = [] then 0 else - 1)"
| "Index (x # xs) substr =
     (if has_prefix (x # xs) substr then 0
      else (let r = Index xs substr in if r < 0 then - 1 else r + 1))"

text \<open>\<^verbatim>\<open>sort.Strings\<close>: ascending in the byte-wise order of strings.\<close>

definition sort_Strings :: "string list \<Rightarrow> string list" where
  "sort_Strings keys = sort keys"

section \<open>client.go: signing and verification\<close>

text \<open>Lines 134-143 of Sign: every key but \<^verbatim>\<open>"sign"\<close>, then sorted.\<close>

definition Sign_keys :: "Params \<Rightarrow> string list" where
  "Sign_keys params =
     sort_Strings (foldl (\<lambda>keys k. if k \<noteq> ''sign'' then keys @ [k] else keys) []
                     (range_keys params))"

text \<open>Lines 146-157 of Sign: the buffer that is hashed.\<close>

definition Sign_buf :: "Client \<Rightarrow> Params \<Rightarrow> string" where
  "Sign_buf c params =
     foldl (\<lambda>buf k. if length (GetString params k) > 0
                     then buf @ k @ ''='' @ GetString params k @ ''&'' else buf)
           [] (Sign_keys params)
     @ ''key='' @ apiKey (account c)"

text \<open>Lines 159-176 of Sign: the switch on the signature type, then upper case.\<close>

definition Sign :: "Env \<Rightarrow> Client \<Rightarrow> Params \<Rightarrow> string" where
  "Sign E c params =
     (let buf = Sign_buf c params;
          str = (if signType c = MD5 E then EncodeToString (md5_Sum (Bytes buf))
                 else if signType c = HMACSHA256 E
                 then EncodeToString (hmac_sha256 (Bytes (apiKey (account c))) (Bytes buf))
                 else [])
      in ToUpper str)"

definition ValidSign :: "Env \<Rightarrow> Client \<Rightarrow> Params \<Rightarrow> bool" where
  "ValidSign E c params =
     (if \<not> ContainsKey params Sign_key then False
      else GetString params Sign_key = Sign E c params)"

definition NewClient :: "Env \<Rightarrow> Account \<Rightarrow> Client" where
  "NewClient E a =
     \<lparr>account = a, signType = MD5 E, httpConnectTimeoutMs = 2000, httpReadTimeoutMs = 1000\<rparr>"

section \<open>client.go: building and sending a request\<close>

text \<open>
  Lines 56-68. The variadic \<^verbatim>\<open>payTp\<close> is the list of the strings passed;
  \<^verbatim>\<open>nonce\<close> is what the call of \<^verbatim>\<open>nonceStr()\<close> returned. The map is changed in
  place and returned: the model returns the changed map.
\<close>

definition fillRequestData :: "Env \<Rightarrow> Client \<Rightarrow> Params \<Rightarrow> string list \<Rightarrow> string \<Rightarrow> Params" where
  "fillRequestData E c params payTp nonce =
     (let p1 = (if length payTp = 1 \<and> payTp ! 0 = MchToCashTp E
                then SetString (SetString params ''mch_appid'' (appID (account c)))
                       ''mchid'' (mchID (account c))
                else SetString (SetString (SetString params ''appid'' (appID (account c)))
                       ''mch_id'' (mchID (account c))) ''sign_type'' (signType c));
          p2 = SetString p1 ''nonce_str'' nonce
      in SetString p2 ''sign'' (Sign E c p2))"

text \<open>
  The two POST paths return the pair \<^verbatim>\<open>(string, error)\<close> of the source, the caller's
  map as they leave it, and the network with the request they issued.
\<close>

type_synonym post_result = "(string \<times> error option) \<times> Params \<times> Network"

definition postWithoutCert ::
  "Env \<Rightarrow> Client \<Rightarrow> string \<Rightarrow> Params \<Rightarrow> string \<Rightarrow> Network \<Rightarrow> post_result" where
  "postWithoutCert E c url params nonce net =
     (let p = fillRequestData E c params [] nonce;
          req = \<lparr>req_cert = None, req_url = url, req_contentType = bodyType,
                 req_body = MapToXml E p\<rparr>
      in case http_Post E req of
           Inl err \<Rightarrow> (([], Some err), p, net @ [req])
         | Inr res \<Rightarrow> ((res, None), p, net @ [req]))"

definition postWithCert ::
  "Env \<Rightarrow> Client \<Rightarrow> string \<Rightarrow> Params \<Rightarrow> string list \<Rightarrow> string \<Rightarrow> Network \<Rightarrow> post_result" where
  "postWithCert E c url params payTp nonce net =
     (case certData (account c) of
        None \<Rightarrow> (([], Some ErrCertDataEmpty), params, net)
      | Some cd \<Rightarrow>
          (let cert = pkcs12ToPem E cd (mchID (account c));
               p = fillRequestData E c params payTp nonce;
               req = \<lparr>req_cert = Some cert, req_url = url, req_contentType = bodyType,
                      req_body = MapToXml E p\<rparr>
           in case http_Post E req of
                Inl err \<Rightarrow> (([], Some err), p, net @ [req])
              | Inr res \<Rightarrow> ((res, None), p, net @ [req])))"

section \<open>client.go: interpreting a response\<close>

text \<open>
  Lines 181-203. The result is the pair \<^verbatim>\<open>(Params, error)\<close>: \<open>None\<close> in the first
  place is the \<^verbatim>\<open>nil\<close> map, \<open>None\<close> in the second the \<^verbatim>\<open>nil\<close> error.
\<close>

definition processResponseXml ::
  "Env \<Rightarrow> Client \<Rightarrow> string \<Rightarrow> bool list \<Rightarrow> Params option \<times> error option" where
  "processResponseXml E c xmlStr flags =
     (let params = XmlToMap E xmlStr in
      if ContainsKey params ''return_code'' then
        (let returnCode = GetString params ''return_code'' in
         if returnCode = Fail then (Some params, None)
         else if returnCode = Success then
           (if length flags = 1 \<and> flags ! 0 = False then (Some params, None)
            else if ValidSign E c params then (Some params, None)
            else (None, Some ErrInvalidSign))
         else (None, Some ErrInvalidReturnCode))
      else (None, Some ErrNoReturnCode))"

text \<open>Lines 311-332 and 334-355: the two bulk downloads.\<close>

type_synonym call_result = "(Params option \<times> error option) \<times> Params \<times> Network"

definition DownloadBill :: "Env \<Rightarrow> Client \<Rightarrow> Params \<Rightarrow> string \<Rightarrow> Network \<Rightarrow> call_result" where
  "DownloadBill E c params nonce net =
     (let url = (if isSandbox (account c) then SandboxDownloadBillUrl E else DownloadBillUrl E)
      in case postWithoutCert E c url params nonce net of
           ((xmlStr, err), params', net') \<Rightarrow>
             (let p = [] in
              if Index xmlStr ''<'' = 0 then ((Some (XmlToMap E xmlStr), err), params', net')
              else ((Some (SetString (SetString (SetString p ''return_code'' Success)
                                        ''return_msg'' ''ok'') ''data'' xmlStr), err),
                    params', net')))"

definition DownloadFundFlow :: "Env \<Rightarrow> Client \<Rightarrow> Params \<Rightarrow> string \<Rightarrow> Network \<Rightarrow> call_result" where
  "DownloadFundFlow E c params nonce net =
     (let url = (if isSandbox (account c) then SandboxDownloadFundFlowUrl E
                 else DownloadFundFlowUrl E)
      in case postWithCert E c url params [] nonce net of
           ((xmlStr, err), params', net') \<Rightarrow>
             (let p = [] in
              if Index xmlStr ''<'' = 0 then ((Some (XmlToMap E xmlStr), err), params', net')
              else ((Some (SetString (SetString (SetString p ''return_code'' Success)
                                        ''return_msg'' ''ok'') ''data'' xmlStr), err),
                    params', net')))"

section \<open>The canonical form as the specification words it\<close>

text \<open>
  Section 4.1 of the specification: collect all keys except the reserved signature-field
  key; sort them in ascending byte-wise order; for each key in that order append
  \<^verbatim>\<open>key=value&\<close> if its value is a non-empty string and nothing otherwise; append
  \<^verbatim>\<open>key=<secret>\<close>. This definition follows those words over the set of keys; the
  one taken from the code is \<open>Sign_buf\<close>.
\<close>

definition canonical_form :: "Params \<Rightarrow> string \<Rightarrow> string" where
  "canonical_form P secret =
     concat (map (\<lambda>k. if GetString P k \<noteq> [] then k @ ''='' @ GetString P k @ ''&'' else [])
               (sorted_list_of_set (set (range_keys P) - {''sign''})))
     @ ''key='' @ secret"

section \<open>Concrete inputs\<close>

text \<open>
  A concrete package for evaluating the model: the signature types under the names of the
  provider's protocol, the codec as a table of the payloads used below, and a server that
  refuses every connection.
\<close>

definition example_env :: Env where
  "example_env =
     \<lparr>MD5 = ''MD5'', HMACSHA256 = ''HMAC-SHA256'', MchToCashTp = ''mch_to_cash'',
      DownloadBillUrl = ''https://api.mch.weixin.qq.com/pay/downloadbill'',
      SandboxDownloadBillUrl = ''https://api.mch.weixin.qq.com/sandboxnew/pay/downloadbill'',
      DownloadFundFlowUrl = ''https://api.mch.weixin.qq.com/pay/downloadfundflow'',
      SandboxDownloadFundFlowUrl =
        ''https://api.mch.weixin.qq.com/sandboxnew/pay/downloadfundflow'',
      XmlToMap = (\<lambda>s.
        if s = ''<xml><return_code>FAIL</return_code></xml>''
        then [(''return_code'', ''FAIL'')]
        else if s = ''<xml><return_code>SUCCESS</return_code></xml>''
        then [(''return_code'', ''SUCCESS'')]
        else if s = ''<xml><return_code>OK</return_code></xml>''
        then [(''return_code'', ''OK'')]
        else []),
      MapToXml = (\<lambda>p. ''<xml>'' @ concat (map (\<lambda>(k, v). ''<'' @ k @ ''>'' @ v @ ''</'' @ k @ ''>'') p)
                        @ ''</xml>''),
      pkcs12ToPem = (\<lambda>p12 password. p12),
      http_Post = (\<lambda>r. Inl (ErrTransport ''connection refused''))\<rparr>"

text \<open>The same package with a server that answers: an XML error in the sandbox, a bill otherwise.\<close>

definition answering_env :: Env where
  "answering_env = example_env
     \<lparr>http_Post := (\<lambda>r. if req_url r = SandboxDownloadBillUrl example_env
                          then Inr ''<xml><return_code>OK</return_code></xml>''
                          else Inr ''date,total_fee'')\<rparr>"

definition example_client :: Client where
  "example_client = NewClient example_env (NewAccount ''wx1'' ''1900'' ''k'' False)"

definition sandbox_client :: Client where
  "sandbox_client = NewClient example_env (NewAccount ''wx1'' ''1900'' ''k'' True)"

section \<open>Facts about the parameter map\<close>

lemma GetString_SetString:
  "GetString (SetString p k v) k' = (if k' = k then v else GetString p k')"
  by (simp add: GetString_def SetString_def update_conv')

lemma ContainsKey_SetString:
  "ContainsKey (SetString p k v) k' = (k' = k \<or> ContainsKey p k')"
  by (simp add: ContainsKey_def SetString_def update_conv')

lemma map_of_SetString: "map_of (SetString p k v) = (map_of p)(k \<mapsto> v)"
  by (simp add: SetString_def update_conv')

lemma keys_SetString: "set (range_keys (SetString p k v)) = insert k (set (range_keys p))"
  by (auto simp: range_keys_def SetString_def update_keys)

text \<open>Writing a map keeps its keys unique.\<close>

lemma distinct_SetString: "distinct (range_keys p) \<Longrightarrow> distinct (range_keys (SetString p k v))"
  by (simp add: range_keys_def SetString_def distinct_update)

section \<open>Facts about the two loops of Sign\<close>

lemma foldl_collect:
  "foldl (\<lambda>keys k. if P k then keys @ [k] else keys) acc xs = acc @ filter P xs"
  by (induction xs arbitrary: acc) auto

lemma foldl_write:
  "foldl (\<lambda>buf k. if Q k then buf @ f k else buf) acc ks = acc @ concat (map f (filter Q ks))"
  by (induction ks arbitrary: acc) auto

lemma Sign_keys_filter: "Sign_keys p = sort (filter (\<lambda>k. k \<noteq> ''sign'') (map fst p))"
  by (simp add: Sign_keys_def sort_Strings_def range_keys_def foldl_collect)

lemma set_Sign_keys: "set (Sign_keys p) = set (map fst p) - {''sign''}"
  by (auto simp: Sign_keys_filter)

lemma sorted_Sign_keys: "sorted (Sign_keys p)"
  by (simp add: Sign_keys_filter)

lemma Sign_keys_SetString_sign: "Sign_keys (SetString p ''sign'' v) = Sign_keys p"
  by (simp add: Sign_keys_filter SetString_def update_keys)

lemma Sign_keys_delete_sign: "Sign_keys (AList.delete ''sign'' p) = Sign_keys p"
  by (simp add: Sign_keys_filter delete_keys removeAll_filter_not_eq conj_commute eq_commute)

lemma Sign_buf_concat:
  "Sign_buf c p = concat (map (\<lambda>k. k @ ''='' @ GetString p k @ ''&'')
       (filter (\<lambda>k. GetString p k \<noteq> []) (Sign_keys p))) @ ''key='' @ apiKey (account c)"
  by (simp add: Sign_buf_def foldl_write)

lemma write_cong:
  "(\<And>k. k \<in> set ks \<Longrightarrow> g k = h k) \<Longrightarrow>
   concat (map (\<lambda>k. k @ ''='' @ g k @ ''&'') (filter (\<lambda>k. g k \<noteq> []) ks))
   = concat (map (\<lambda>k. k @ ''='' @ h k @ ''&'') (filter (\<lambda>k. h k \<noteq> []) ks))"
  by (induction ks) auto

text \<open>The buffer depends on the keys other than \<^verbatim>\<open>"sign"\<close> and on their values only.\<close>

lemma Sign_buf_cong:
  assumes "Sign_keys p = Sign_keys q"
    and "\<And>k. k \<noteq> ''sign'' \<Longrightarrow> GetString p k = GetString q k"
  shows "Sign_buf c p = Sign_buf c q"
proof -
  have "\<And>k. k \<in> set (Sign_keys q) \<Longrightarrow> GetString p k = GetString q k"
    by (simp add: set_Sign_keys assms(2))
  then have "concat (map (\<lambda>k. k @ ''='' @ GetString p k @ ''&'')
                 (filter (\<lambda>k. GetString p k \<noteq> []) (Sign_keys q)))
           = concat (map (\<lambda>k. k @ ''='' @ GetString q k @ ''&'')
                 (filter (\<lambda>k. GetString q k \<noteq> []) (Sign_keys q)))"
    by (rule write_cong)
  then show ?thesis
    unfolding Sign_buf_concat assms(1) by (rule arg_cong)
qed

lemma Sign_buf_SetString_sign: "Sign_buf c (SetString p ''sign'' v) = Sign_buf c p"
  by (rule Sign_buf_cong) (simp_all add: Sign_keys_SetString_sign GetString_SetString)

lemma Sign_buf_delete_sign: "Sign_buf c (AList.delete ''sign'' p) = Sign_buf c p"
  by (rule Sign_buf_cong) (simp_all add: Sign_keys_delete_sign GetString_def)

lemma Sign_SetString_sign: "Sign E c (SetString p ''sign'' v) = Sign E c p"
  by (simp add: Sign_def Sign_buf_SetString_sign)

lemma Sign_delete_sign: "Sign E c (AList.delete ''sign'' p) = Sign E c p"
  by (simp add: Sign_def Sign_buf_delete_sign)

lemma concat_map_filter_if:
  "concat (map f (filter Q ks)) = concat (map (\<lambda>k. if Q k then f k else []) ks)"
  by (induction ks) auto

lemma Sign_keys_sorted_list:
  assumes "distinct (range_keys p)"
  shows "Sign_keys p = sorted_list_of_set (set (range_keys p) - {''sign''})"
proof -
  let ?ks = "filter (\<lambda>k. k \<noteq> ''sign'') (map fst p)"
  have "distinct ?ks" using assms by (simp add: range_keys_def)
  then have "sorted_list_of_set (set ?ks) = sort ?ks"
    by (simp only: sorted_list_of_set_sort_remdups distinct_remdups_id)
  moreover have "set ?ks = set (range_keys p) - {''sign''}"
    by (auto simp: range_keys_def)
  ultimately show ?thesis by (simp add: Sign_keys_filter)
qed

lemma Sign_buf_canonical_form:
  assumes "distinct (range_keys p)"
  shows "Sign_buf c p = canonical_form p (apiKey (account c))"
  unfolding Sign_buf_concat canonical_form_def Sign_keys_sorted_list [OF assms]
    concat_map_filter_if [of _ "\<lambda>k. GetString p k \<noteq> []"] by (rule refl)

text \<open>
  The iteration order of the map does not reach the signature: two lists with unique keys
  that are the same map are signed alike.
\<close>

lemma Sign_order_independent:
  assumes "distinct (range_keys p)" and "distinct (range_keys q)" and "map_of p = map_of q"
  shows "Sign E c p = Sign E c q"
proof -
  have "set (range_keys p) = dom (map_of p)" and "set (range_keys q) = dom (map_of q)"
    by (simp_all add: range_keys_def dom_map_of_conv_image_fst)
  with assms(3) have "set (range_keys p) = set (range_keys q)" by simp
  moreover from assms(3) have "GetString p = GetString q"
    by (simp add: GetString_def fun_eq_iff)
  ultimately have "canonical_form p (apiKey (account c)) = canonical_form q (apiKey (account c))"
    by (simp add: canonical_form_def cong: if_cong)
  then have "Sign_buf c p = Sign_buf c q"
    by (simp add: Sign_buf_canonical_form assms(1,2))
  then show ?thesis by (simp add: Sign_def)
qed

section \<open>Facts about the library functions\<close>

lemma upper_byte_not_lower: "\<not> (CHR ''a'' \<le> upper_byte ch \<and> upper_byte ch \<le> CHR ''z'')"
proof -
  have "of_char ch < (256::nat)" by simp
  then show ?thesis
    by (auto simp: upper_byte_def less_eq_char_def)
qed

lemma ToUpper_no_lower: "ch \<in> set (ToUpper s) \<Longrightarrow> \<not> (CHR ''a'' \<le> ch \<and> ch \<le> CHR ''z'')"
  using upper_byte_not_lower by (auto simp: ToUpper_def)

lemma Sign_no_lower: "ch \<in> set (Sign E c p) \<Longrightarrow> \<not> (CHR ''a'' \<le> ch \<and> ch \<le> CHR ''z'')"
  unfolding Sign_def Let_def by (rule ToUpper_no_lower)

lemma Index_lt: "(Index s ''<'' = 0) = (take 1 s = ''<'')"
  by (cases s) (auto simp: Let_def)

lemma hex_digit: "n < 16 \<Longrightarrow> hextable ! n \<in> set hextable"
  by (rule nth_mem) (simp add: hextable_def)

lemma nibble_hi: "unat (drop_bit 4 (v::byte)) < 16"
  using unsigned_less [of v, where ?'a = nat] by (simp add: drop_bit_eq_div unat_div)

lemma nibble_lo: "unat ((v::byte) AND 0x0f) < 16"
  using word_and_le1 [of v "0x0f"] by (simp add: word_le_nat_alt)

text \<open>What Sign hands to \<^verbatim>\<open>strings.ToUpper\<close> consists of hexadecimal digits.\<close>

lemma EncodeToString_hex: "ch \<in> set (EncodeToString src) \<Longrightarrow> ch \<in> set hextable"
  by (induction src) (auto simp: hex_digit nibble_hi nibble_lo)

text \<open>The order on strings compares the first bytes that differ, as Go does.\<close>

lemma string_less_bytewise:
  "((x # xs :: string) < y # ys) = ((of_char x :: nat) < of_char y \<or> x = y \<and> xs < ys)"
  "([] :: string) < y # ys"
  "\<not> (xs :: string) < []"
  by (auto simp: less_char_def)

section \<open>Facts about the request builder and the transport\<close>

lemma flags_opt_out: "(length flags = 1 \<and> flags ! 0 = False) = (flags = [False])"
  by (cases flags) auto

lemma payTp_single: "(length payTp = 1 \<and> payTp ! 0 = t) = (payTp = [t])"
  by (cases payTp) auto

lemma processResponseXml_alt:
  "processResponseXml E c xmlStr flags =
     (let params = XmlToMap E xmlStr in
      if ContainsKey params ''return_code'' then
        (let returnCode = GetString params ''return_code'' in
         if returnCode = Fail then (Some params, None)
         else if returnCode = Success then
           (if flags = [False] then (Some params, None)
            else if ValidSign E c params then (Some params, None)
            else (None, Some ErrInvalidSign))
         else (None, Some ErrInvalidReturnCode))
      else (None, Some ErrNoReturnCode))"
  by (simp only: processResponseXml_def flags_opt_out)

lemma fillRequestData_alt:
  "fillRequestData E c params payTp nonce =
     (let p1 = (if payTp = [MchToCashTp E]
                then SetString (SetString params ''mch_appid'' (appID (account c)))
                       ''mchid'' (mchID (account c))
                else SetString (SetString (SetString params ''appid'' (appID (account c)))
                       ''mch_id'' (mchID (account c))) ''sign_type'' (signType c));
          p2 = SetString p1 ''nonce_str'' nonce
      in SetString p2 ''sign'' (Sign E c p2))"
  by (simp only: fillRequestData_def payTp_single)

lemma Sign_fillRequestData:
  "GetString (fillRequestData E c p payTp nonce) ''sign'' =
   Sign E c (fillRequestData E c p payTp nonce)"
  by (simp only: fillRequestData_alt Let_def GetString_SetString Sign_SetString_sign refl if_True)

lemma map_of_fillRequestData_mch:
  "map_of (fillRequestData E c p [MchToCashTp E] nonce) =
     (map_of p)(''mch_appid'' \<mapsto> appID (account c), ''mchid'' \<mapsto> mchID (account c),
             ''nonce_str'' \<mapsto> nonce,
             ''sign'' \<mapsto> Sign E c (fillRequestData E c p [MchToCashTp E] nonce))"
  by (simp add: fillRequestData_alt Let_def map_of_SetString Sign_SetString_sign)

lemma map_of_fillRequestData_std:
  "payTp \<noteq> [MchToCashTp E] \<Longrightarrow>
   map_of (fillRequestData E c p payTp nonce) =
     (map_of p)(''appid'' \<mapsto> appID (account c), ''mch_id'' \<mapsto> mchID (account c),
             ''sign_type'' \<mapsto> signType c, ''nonce_str'' \<mapsto> nonce,
             ''sign'' \<mapsto> Sign E c (fillRequestData E c p payTp nonce))"
  by (simp add: fillRequestData_alt Let_def map_of_SetString Sign_SetString_sign)

lemma keys_fillRequestData_mch:
  "set (range_keys (fillRequestData E c p [MchToCashTp E] nonce)) =
     set (range_keys p) \<union> {''mch_appid'', ''mchid'', ''nonce_str'', ''sign''}"
  by (simp add: fillRequestData_alt Let_def keys_SetString insert_commute)

lemma keys_fillRequestData_std:
  "payTp \<noteq> [MchToCashTp E] \<Longrightarrow>
   set (range_keys (fillRequestData E c p payTp nonce)) =
     set (range_keys p) \<union> {''appid'', ''mch_id'', ''sign_type'', ''nonce_str'', ''sign''}"
  by (simp add: fillRequestData_alt Let_def keys_SetString insert_commute)

lemma ValidSign_fillRequestData: "ValidSign E c (fillRequestData E c p payTp nonce)"
  by (simp add: ValidSign_def Sign_key_def Sign_fillRequestData)
     (simp add: fillRequestData_alt Let_def ContainsKey_SetString)

lemma postWithoutCert_err_empty:
  "snd (fst (postWithoutCert E c url params nonce net)) = Some e \<Longrightarrow>
   fst (fst (postWithoutCert E c url params nonce net)) = []"
  by (auto simp: postWithoutCert_def Let_def split: sum.splits)

lemma postWithCert_err_empty:
  "snd (fst (postWithCert E c url params payTp nonce net)) = Some e \<Longrightarrow>
   fst (fst (postWithCert E c url params payTp nonce net)) = []"
  by (auto simp: postWithCert_def Let_def split: sum.splits option.splits)

text \<open>The downloads hand back the error of their POST unchanged.\<close>

lemma DownloadBill_err:
  "snd (fst (DownloadBill E c params nonce net)) =
   snd (fst (postWithoutCert E c
     (if isSandbox (account c) then SandboxDownloadBillUrl E else DownloadBillUrl E)
     params nonce net))"
  unfolding DownloadBill_def Let_def by (simp split: prod.splits)

lemma DownloadFundFlow_err:
  "snd (fst (DownloadFundFlow E c params nonce net)) =
   snd (fst (postWithCert E c
     (if isSandbox (account c) then SandboxDownloadFundFlowUrl E else DownloadFundFlowUrl E)
     params [] nonce net))"
  unfolding DownloadFundFlow_def Let_def by (simp split: prod.splits)

section \<open>Evaluated signatures\<close>

text \<open>
  The parameter set \<^verbatim>\<open>{"a":"1","b":""}\<close> under the key \<^verbatim>\<open>k\<close>: the keys
  collected, the bytes hashed, and the two signatures, computed from the definitions. The
  digests are those that \<^verbatim>\<open>md5sum\<close> and HMAC-SHA256 give for \<^verbatim>\<open>a=1&key=k\<close>.
\<close>

lemma Sign_keys_example: "Sign_keys [(''a'', ''1''), (''b'', [])] = [''a'', ''b'']"
  by code_simp

lemma Sign_buf_example: "Sign_buf example_client [(''a'', ''1''), (''b'', [])] = ''a=1&key=k''"
  by code_simp

lemma Sign_example_md5:
  "Sign example_env example_client [(''a'', ''1''), (''b'', [])]
   = ''AFFDCC88244C83F871BFE4854BE9C1A5''"
  by code_simp

lemma Sign_example_hmac:
  "Sign example_env (SetSignType example_client ''HMAC-SHA256'') [(''a'', ''1''), (''b'', [])]
   = ''598633A0305F32A66552EE11A67B14D1E270AE49BC37701C6DC2F3A5D41A88F6''"
  by code_simp

lemma ToUpper_example:
  "ToUpper ''affdcc88244c83f871bfe4854be9c1a5'' = ''AFFDCC88244C83F871BFE4854BE9C1A5''"
  by code_simp

section \<open>The claims\<close>

text \<open>
  Claim C1. For every parameter set and every client, in particular one whose signature
  type is MD5 or HMAC-SHA256: after the signature computed by Sign is stored under the key
  \<^verbatim>\<open>sign\<close>, ValidSign accepts the resulting set.
\<close>

theorem sign_then_verify:
  "ValidSign E c (SetString p Sign_key (Sign E c p))"
  by (simp add: ValidSign_def Sign_key_def ContainsKey_SetString GetString_SetString
        Sign_SetString_sign)

theorem sign_then_verify_witness:
  "ValidSign example_env example_client
     [(''a'', ''1''), (''b'', []), (''sign'', ''AFFDCC88244C83F871BFE4854BE9C1A5'')]
   \<and> ValidSign example_env (SetSignType example_client ''HMAC-SHA256'')
     [(''a'', ''1''), (''b'', []),
      (''sign'', ''598633A0305F32A66552EE11A67B14D1E270AE49BC37701C6DC2F3A5D41A88F6'')]"
  using sign_then_verify [of example_env example_client "[(''a'', ''1''), (''b'', [])]"]
    sign_then_verify [of example_env "SetSignType example_client ''HMAC-SHA256''"
      "[(''a'', ''1''), (''b'', [])]"]
  by (simp add: Sign_example_md5 Sign_example_hmac SetString_def Sign_key_def)

text \<open>
  Claim C2. The string that Sign hashes is the canonical form of the specification: the
  keys other than \<^verbatim>\<open>sign\<close> in ascending byte-wise order, \<^verbatim>\<open>key=value&\<close> for
  each key with a non-empty value and nothing for a key with an empty value, then
  \<^verbatim>\<open>key=\<close> and the API key with no separator after it. In particular
  \<^verbatim>\<open>{"a":"1","b":""}\<close> with the key \<^verbatim>\<open>k\<close> gives \<^verbatim>\<open>a=1&key=k\<close>.
\<close>

theorem Sign_buf_is_canonical_form:
  "(distinct (range_keys p) \<longrightarrow> Sign_buf c p = canonical_form p (apiKey (account c)))
   \<and> sorted (Sign_keys p)
   \<and> set (Sign_keys p) = set (range_keys p) - {''sign''}
   \<and> (apiKey (account c) = ''k'' \<longrightarrow> Sign_buf c [(''a'', ''1''), (''b'', [])] = ''a=1&key=k'')"
proof -
  have "apiKey (account c) = ''k'' \<longrightarrow> Sign_buf c [(''a'', ''1''), (''b'', [])] = ''a=1&key=k''"
    by (simp add: Sign_buf_def Sign_keys_example GetString_def)
  then show ?thesis
    by (simp add: Sign_buf_canonical_form sorted_Sign_keys set_Sign_keys range_keys_def)
qed

theorem Sign_buf_is_canonical_form_witness:
  "distinct (range_keys [(''a'', ''1''), (''b'', [])])
   \<and> apiKey (account example_client) = ''k''
   \<and> Sign_buf example_client [(''a'', ''1''), (''b'', [])] = ''a=1&key=k''
   \<and> canonical_form [(''a'', ''1''), (''b'', [])] ''k'' = ''a=1&key=k''
   \<and> Sign_keys [(''a'', ''1''), (''b'', [])] = [''a'', ''b'']"
proof -
  have k: "apiKey (account example_client) = ''k''"
    by (simp add: example_client_def NewClient_def NewAccount_def)
  have d: "distinct (range_keys [(''a'', ''1''), (''b'', [])])"
    by (simp add: range_keys_def)
  note T = Sign_buf_is_canonical_form [of "[(''a'', ''1''), (''b'', [])]" example_client]
  from T d have a: "Sign_buf example_client [(''a'', ''1''), (''b'', [])]
           = canonical_form [(''a'', ''1''), (''b'', [])] (apiKey (account example_client))"
    by blast
  from T k have b: "Sign_buf example_client [(''a'', ''1''), (''b'', [])] = ''a=1&key=k''"
    by blast
  from a [unfolded b k] have "canonical_form [(''a'', ''1''), (''b'', [])] ''k'' = ''a=1&key=k''"
    by (rule sym)
  with b k d show ?thesis by (simp add: Sign_keys_example)
qed

text \<open>
  Claim C3. processResponseXml returns an error exactly when the decoded map has no
  \<^verbatim>\<open>return_code\<close>, or its value is neither SUCCESS nor FAIL, or its value is SUCCESS,
  the caller did not opt out of verification (the flags are not the single value false)
  and ValidSign fails; on an error the map returned is nil. With FAIL the decoded map
  is returned as it is, whatever its signature; with SUCCESS and the flag false it is
  returned without verification.
\<close>

theorem processResponseXml_trust:
  "(let params = XmlToMap E xmlStr; rc = GetString params ''return_code'';
        r = processResponseXml E c xmlStr flags in
      ((snd r \<noteq> None) =
         (\<not> ContainsKey params ''return_code''
          \<or> (rc \<noteq> Success \<and> rc \<noteq> Fail)
          \<or> (rc = Success \<and> flags \<noteq> [False] \<and> \<not> ValidSign E c params)))
      \<and> ((fst r = None) = (snd r \<noteq> None))
      \<and> (ContainsKey params ''return_code'' \<and> rc = Fail \<longrightarrow> r = (Some params, None))
      \<and> (ContainsKey params ''return_code'' \<and> rc = Success \<and> flags = [False]
           \<longrightarrow> r = (Some params, None)))"
  by (auto simp: processResponseXml_alt Let_def Success_def Fail_def)

theorem processResponseXml_trust_witness:
  "processResponseXml example_env example_client
     ''<xml><return_code>SUCCESS</return_code></xml>'' [] = (None, Some ErrInvalidSign)
   \<and> processResponseXml example_env example_client
     ''<xml><return_code>SUCCESS</return_code></xml>'' [False]
       = (Some [(''return_code'', ''SUCCESS'')], None)
   \<and> processResponseXml example_env example_client
     ''<xml><return_code>FAIL</return_code></xml>'' [] = (Some [(''return_code'', ''FAIL'')], None)
   \<and> processResponseXml example_env example_client
     ''<xml><return_code>OK</return_code></xml>'' [] = (None, Some ErrInvalidReturnCode)
   \<and> processResponseXml example_env example_client [] [] = (None, Some ErrNoReturnCode)"
  using processResponseXml_trust [of example_env
      "''<xml><return_code>SUCCESS</return_code></xml>''" example_client "[False]"]
    processResponseXml_trust [of example_env
      "''<xml><return_code>FAIL</return_code></xml>''" example_client "[]"]
  by (simp add: processResponseXml_alt example_env_def ContainsKey_def GetString_def
        ValidSign_def Sign_key_def Success_def Fail_def)

text \<open>
  Claim C4, as the code has it. Verification compares the stored \<^verbatim>\<open>sign\<close> value with
  the computed signature byte for byte. Sign returns upper-case text, and ValidSign does
  not change the case of the stored value: a stored value with a lower-case letter in it,
  such as the lower-case hexadecimal form of the correct signature, is rejected.
\<close>

theorem ValidSign_case_sensitive:
  assumes "ch \<in> set (GetString p Sign_key)" and "CHR ''a'' \<le> ch" and "ch \<le> CHR ''z''"
  shows "\<not> ValidSign E c p"
  using assms Sign_no_lower [of ch E c p] by (auto simp: ValidSign_def)

theorem ValidSign_case_sensitive_witness:
  "CHR ''a'' \<in> set (GetString
      [(''a'', ''1''), (''b'', []), (''sign'', ''affdcc88244c83f871bfe4854be9c1a5'')] Sign_key)
   \<and> \<not> ValidSign example_env example_client
      [(''a'', ''1''), (''b'', []), (''sign'', ''affdcc88244c83f871bfe4854be9c1a5'')]"
proof -
  have m: "CHR ''a'' \<in> set (GetString
      [(''a'', ''1''), (''b'', []), (''sign'', ''affdcc88244c83f871bfe4854be9c1a5'')] Sign_key)"
    by (simp add: GetString_def Sign_key_def)
  have "CHR ''a'' \<le> CHR ''a''" and "CHR ''a'' \<le> CHR ''z''"
    by (simp_all add: less_eq_char_def)
  with m show ?thesis
    using ValidSign_case_sensitive [of "CHR ''a''"
        "[(''a'', ''1''), (''b'', []), (''sign'', ''affdcc88244c83f871bfe4854be9c1a5'')]"
        example_env example_client]
    by simp
qed

text \<open>
  The case-insensitive reading of claim C4 fails: the stored value below is the correct
  signature of \<^verbatim>\<open>{"a":"1","b":""}\<close> under the key \<^verbatim>\<open>k\<close> in lower case, its
  upper-case form is what Sign computes, and ValidSign rejects it.
\<close>

theorem ValidSign_lower_case_counterexample:
  "ToUpper (GetString
      [(''a'', ''1''), (''b'', []), (''sign'', ''affdcc88244c83f871bfe4854be9c1a5'')] Sign_key)
     = Sign example_env example_client
      [(''a'', ''1''), (''b'', []), (''sign'', ''affdcc88244c83f871bfe4854be9c1a5'')]
   \<and> \<not> ValidSign example_env example_client
      [(''a'', ''1''), (''b'', []), (''sign'', ''affdcc88244c83f871bfe4854be9c1a5'')]"
proof -
  let ?p = "[(''a'', ''1''), (''b'', []), (''sign'', ''affdcc88244c83f871bfe4854be9c1a5'')]"
  have "?p = SetString [(''a'', ''1''), (''b'', [])] ''sign'' ''affdcc88244c83f871bfe4854be9c1a5''"
    by (simp add: SetString_def)
  then have "Sign example_env example_client ?p
             = Sign example_env example_client [(''a'', ''1''), (''b'', [])]"
    by (simp only: Sign_SetString_sign)
  then have s: "Sign example_env example_client ?p = ''AFFDCC88244C83F871BFE4854BE9C1A5''"
    by (simp only: Sign_example_md5)
  have g: "GetString ?p Sign_key = ''affdcc88244c83f871bfe4854be9c1a5''"
    by (simp add: GetString_def Sign_key_def)
  show ?thesis
    by (simp add: s g ToUpper_example ValidSign_def)
qed

text \<open>
  Claim C5. In standard mode fillRequestData adds exactly the keys \<^verbatim>\<open>appid\<close>,
  \<^verbatim>\<open>mch_id\<close>, \<^verbatim>\<open>sign_type\<close>, \<^verbatim>\<open>nonce_str\<close> and \<^verbatim>\<open>sign\<close>; in
  merchant-to-wallet mode (the single request kind MchToCashTp) it adds \<^verbatim>\<open>mch_appid\<close>,
  \<^verbatim>\<open>mchid\<close>, \<^verbatim>\<open>nonce_str\<close> and \<^verbatim>\<open>sign\<close> and leaves \<^verbatim>\<open>sign_type\<close> as
  it was. In both modes the \<^verbatim>\<open>sign\<close> field is the signature of the final set
  without that field, and the returned set passes ValidSign.
\<close>

theorem fillRequestData_fields:
  "(let r = fillRequestData E c p payTp nonce in
      (payTp \<noteq> [MchToCashTp E] \<longrightarrow>
         set (range_keys r) = set (range_keys p)
           \<union> {''appid'', ''mch_id'', ''sign_type'', ''nonce_str'', ''sign''}
         \<and> map_of r = (map_of p)(''appid'' \<mapsto> appID (account c),
             ''mch_id'' \<mapsto> mchID (account c), ''sign_type'' \<mapsto> signType c,
             ''nonce_str'' \<mapsto> nonce, ''sign'' \<mapsto> Sign E c r))
      \<and> (payTp = [MchToCashTp E] \<longrightarrow>
         set (range_keys r) = set (range_keys p)
           \<union> {''mch_appid'', ''mchid'', ''nonce_str'', ''sign''}
         \<and> map_of r = (map_of p)(''mch_appid'' \<mapsto> appID (account c),
             ''mchid'' \<mapsto> mchID (account c), ''nonce_str'' \<mapsto> nonce,
             ''sign'' \<mapsto> Sign E c r)
         \<and> map_of r ''sign_type'' = map_of p ''sign_type'')
      \<and> GetString r ''sign'' = Sign E c (AList.delete ''sign'' r)
      \<and> ValidSign E c r)"
proof -
  have std: "payTp \<noteq> [MchToCashTp E] \<longrightarrow>
      set (range_keys (fillRequestData E c p payTp nonce)) = set (range_keys p)
           \<union> {''appid'', ''mch_id'', ''sign_type'', ''nonce_str'', ''sign''}
      \<and> map_of (fillRequestData E c p payTp nonce) = (map_of p)(''appid'' \<mapsto> appID (account c),
             ''mch_id'' \<mapsto> mchID (account c), ''sign_type'' \<mapsto> signType c,
             ''nonce_str'' \<mapsto> nonce, ''sign'' \<mapsto> Sign E c (fillRequestData E c p payTp nonce))"
    by (intro impI conjI keys_fillRequestData_std map_of_fillRequestData_std)
  have mch: "payTp = [MchToCashTp E] \<longrightarrow>
      set (range_keys (fillRequestData E c p payTp nonce)) = set (range_keys p)
           \<union> {''mch_appid'', ''mchid'', ''nonce_str'', ''sign''}
      \<and> map_of (fillRequestData E c p payTp nonce) = (map_of p)(''mch_appid'' \<mapsto> appID (account c),
             ''mchid'' \<mapsto> mchID (account c), ''nonce_str'' \<mapsto> nonce,
             ''sign'' \<mapsto> Sign E c (fillRequestData E c p payTp nonce))
      \<and> map_of (fillRequestData E c p payTp nonce) ''sign_type'' = map_of p ''sign_type''"
  proof (intro impI conjI)
    assume m: "payTp = [MchToCashTp E]"
    show "set (range_keys (fillRequestData E c p payTp nonce)) = set (range_keys p)
           \<union> {''mch_appid'', ''mchid'', ''nonce_str'', ''sign''}"
      unfolding m by (rule keys_fillRequestData_mch)
    show "map_of (fillRequestData E c p payTp nonce) = (map_of p)(''mch_appid'' \<mapsto> appID (account c),
             ''mchid'' \<mapsto> mchID (account c), ''nonce_str'' \<mapsto> nonce,
             ''sign'' \<mapsto> Sign E c (fillRequestData E c p payTp nonce))"
      unfolding m by (rule map_of_fillRequestData_mch)
    show "map_of (fillRequestData E c p payTp nonce) ''sign_type'' = map_of p ''sign_type''"
      unfolding m by (simp add: map_of_fillRequestData_mch)
  qed
  have sg: "GetString (fillRequestData E c p payTp nonce) ''sign''
            = Sign E c (AList.delete ''sign'' (fillRequestData E c p payTp nonce))"
    by (simp only: Sign_delete_sign Sign_fillRequestData)
  show ?thesis
    unfolding Let_def
    by (rule conjI [OF std conjI [OF mch conjI [OF sg ValidSign_fillRequestData]]])
qed

theorem fillRequestData_fields_witness:
  "set (range_keys (fillRequestData example_env example_client [(''a'', ''1'')] [] ''n0''))
     = {''a'', ''appid'', ''mch_id'', ''sign_type'', ''nonce_str'', ''sign''}
   \<and> set (range_keys (fillRequestData example_env example_client [(''a'', ''1'')]
            [''mch_to_cash''] ''n0''))
     = {''a'', ''mch_appid'', ''mchid'', ''nonce_str'', ''sign''}
   \<and> ValidSign example_env example_client
        (fillRequestData example_env example_client [(''a'', ''1'')] [] ''n0'')
   \<and> ValidSign example_env example_client
        (fillRequestData example_env example_client [(''a'', ''1'')] [''mch_to_cash''] ''n0'')"
proof -
  note std = fillRequestData_fields [of example_env example_client "[(''a'', ''1'')]" "[]" "''n0''",
      unfolded Let_def]
  note mch = fillRequestData_fields [of example_env example_client "[(''a'', ''1'')]"
      "[''mch_to_cash'']" "''n0''", unfolded Let_def]
  have t: "MchToCashTp example_env = ''mch_to_cash''"
    by (simp add: example_env_def)
  have k: "set (range_keys [(''a'', ''1'')]) = {''a''}"
    by (simp add: range_keys_def)
  have "[] \<noteq> [MchToCashTp example_env]" by simp
  from std [THEN conjunct1, THEN mp, OF this, THEN conjunct1]
  have 1: "set (range_keys (fillRequestData example_env example_client [(''a'', ''1'')] [] ''n0''))
          = {''a'', ''appid'', ''mch_id'', ''sign_type'', ''nonce_str'', ''sign''}"
    by (auto simp: k)
  have "[''mch_to_cash''] = [MchToCashTp example_env]" by (simp add: t)
  from mch [THEN conjunct2, THEN conjunct1, THEN mp, OF this, THEN conjunct1]
  have 2: "set (range_keys (fillRequestData example_env example_client [(''a'', ''1'')]
            [''mch_to_cash''] ''n0''))
          = {''a'', ''mch_appid'', ''mchid'', ''nonce_str'', ''sign''}"
    by (auto simp: k)
  from std have 3: "ValidSign example_env example_client
          (fillRequestData example_env example_client [(''a'', ''1'')] [] ''n0'')"
    by (elim conjE)
  from mch have 4: "ValidSign example_env example_client
          (fillRequestData example_env example_client [(''a'', ''1'')] [''mch_to_cash''] ''n0'')"
    by (elim conjE)
  from 1 2 3 4 show ?thesis by (intro conjI)
qed

text \<open>
  Claim C6. When the account of the client has no certificate data, postWithCert returns
  an error at once: it issues no request (the plain path is not tried either) and leaves
  the parameters as they were.
\<close>

theorem postWithCert_no_cert:
  "certData (account c) = None \<Longrightarrow>
   postWithCert E c url params payTp nonce net = (([], Some ErrCertDataEmpty), params, net)"
  by (simp add: postWithCert_def)

theorem postWithCert_no_cert_witness:
  "certData (account example_client) = None
   \<and> postWithCert answering_env example_client (DownloadFundFlowUrl answering_env)
        [(''a'', ''1'')] [] ''n0'' [] = (([], Some ErrCertDataEmpty), [(''a'', ''1'')], [])"
proof -
  have n: "certData (account example_client) = None"
    by (simp add: example_client_def NewClient_def NewAccount_def)
  with postWithCert_no_cert [OF n] show ?thesis by simp
qed

text \<open>
  Claim C7. DownloadBill and DownloadFundFlow look at the first character of the payload
  that the POST returned: a payload that begins with \<^verbatim>\<open><\<close> is decoded by XmlToMap and
  that map is returned; any other payload is returned as the map with
  \<^verbatim>\<open>return_code\<close> SUCCESS, \<^verbatim>\<open>return_msg\<close> ok and the payload under
  \<^verbatim>\<open>data\<close>. No status or signature check of processResponseXml takes part.
\<close>

theorem download_branches:
  "(let bill = fst (fst (postWithoutCert E c
        (if isSandbox (account c) then SandboxDownloadBillUrl E else DownloadBillUrl E)
        params nonce net));
        flow = fst (fst (postWithCert E c
        (if isSandbox (account c) then SandboxDownloadFundFlowUrl E else DownloadFundFlowUrl E)
        params [] nonce net))
    in fst (fst (DownloadBill E c params nonce net)) =
         (if take 1 bill = ''<'' then Some (XmlToMap E bill)
          else Some [(''return_code'', Success), (''return_msg'', ''ok''), (''data'', bill)])
       \<and> fst (fst (DownloadFundFlow E c params nonce net)) =
         (if take 1 flow = ''<'' then Some (XmlToMap E flow)
          else Some [(''return_code'', Success), (''return_msg'', ''ok''), (''data'', flow)]))"
  unfolding DownloadBill_def DownloadFundFlow_def Let_def Index_lt
  by (simp add: SetString_def split: prod.splits)

theorem download_branches_witness:
  "fst (DownloadBill answering_env sandbox_client [] ''n0'' [])
     = (Some [(''return_code'', ''OK'')], None)
   \<and> processResponseXml answering_env sandbox_client
        ''<xml><return_code>OK</return_code></xml>'' [] = (None, Some ErrInvalidReturnCode)
   \<and> fst (DownloadBill answering_env example_client [] ''n0'' [])
     = (Some [(''return_code'', ''SUCCESS''), (''return_msg'', ''ok''),
              (''data'', ''date,total_fee'')], None)
   \<and> fst (DownloadFundFlow answering_env
        (SetAccount example_client (SetCertData (account example_client) (Some [1, 2, 3])))
        [] ''n0'' [])
     = (Some [(''return_code'', ''SUCCESS''), (''return_msg'', ''ok''),
              (''data'', ''date,total_fee'')], None)"
proof -
  let ?cc = "SetAccount example_client (SetCertData (account example_client) (Some [1, 2, 3]))"
  have p1: "fst (postWithoutCert answering_env sandbox_client
              (SandboxDownloadBillUrl answering_env) [] ''n0'' [])
            = (''<xml><return_code>OK</return_code></xml>'', None)"
    by (simp add: postWithoutCert_def Let_def answering_env_def example_env_def)
  have p2: "fst (postWithoutCert answering_env example_client
              (DownloadBillUrl answering_env) [] ''n0'' []) = (''date,total_fee'', None)"
    by (simp add: postWithoutCert_def Let_def answering_env_def example_env_def)
  have p3: "fst (postWithCert answering_env ?cc
              (DownloadFundFlowUrl answering_env) [] [] ''n0'' []) = (''date,total_fee'', None)"
    by (simp add: postWithCert_def Let_def answering_env_def example_env_def
          example_client_def NewClient_def NewAccount_def SetAccount_def SetCertData_def)
  have s1: "isSandbox (account sandbox_client)" and s2: "\<not> isSandbox (account example_client)"
    and s3: "\<not> isSandbox (account ?cc)"
    by (simp_all add: sandbox_client_def example_client_def NewClient_def NewAccount_def
          SetAccount_def SetCertData_def)
  have x: "XmlToMap answering_env ''<xml><return_code>OK</return_code></xml>''
           = [(''return_code'', ''OK'')]"
    by (simp add: answering_env_def example_env_def)
  have e1: "snd (fst (DownloadBill answering_env sandbox_client [] ''n0'' [])) = None"
    and e2: "snd (fst (DownloadBill answering_env example_client [] ''n0'' [])) = None"
    and e3: "snd (fst (DownloadFundFlow answering_env ?cc [] ''n0'' [])) = None"
    by (simp_all add: DownloadBill_err DownloadFundFlow_err s1 s2 s3 p1 p2 p3)
  have r: "processResponseXml answering_env sandbox_client
        ''<xml><return_code>OK</return_code></xml>'' [] = (None, Some ErrInvalidReturnCode)"
    by (simp add: processResponseXml_alt x ContainsKey_def GetString_def Success_def Fail_def)
  from download_branches [of answering_env sandbox_client "[]" "''n0''" "[]"] p1 s1 x e1
  have a: "fst (DownloadBill answering_env sandbox_client [] ''n0'' [])
           = (Some [(''return_code'', ''OK'')], None)"
    by (simp add: Let_def prod_eq_iff)
  from download_branches [of answering_env example_client "[]" "''n0''" "[]"] p2 s2 e2
  have b: "fst (DownloadBill answering_env example_client [] ''n0'' [])
     = (Some [(''return_code'', ''SUCCESS''), (''return_msg'', ''ok''),
              (''data'', ''date,total_fee'')], None)"
    by (simp add: Let_def prod_eq_iff Success_def)
  from download_branches [of answering_env ?cc "[]" "''n0''" "[]"] p3 s3 e3
  have c: "fst (DownloadFundFlow answering_env ?cc [] ''n0'' [])
     = (Some [(''return_code'', ''SUCCESS''), (''return_msg'', ''ok''),
              (''data'', ''date,total_fee'')], None)"
    by (simp add: Let_def prod_eq_iff Success_def)
  from a r b c show ?thesis by (intro conjI)
qed

text \<open>
  Claim C8. Sign does not read the \<^verbatim>\<open>sign\<close> field: whatever value is stored under
  it, the signature is that of the set without the field. Signing a set that already
  carries its signature therefore gives the same signature again.
\<close>

theorem Sign_ignores_sign_field:
  "Sign E c (SetString p Sign_key v) = Sign E c (AList.delete Sign_key p)
   \<and> Sign E c (SetString p Sign_key (Sign E c p)) = Sign E c p"
  by (simp add: Sign_key_def Sign_SetString_sign Sign_delete_sign)

theorem Sign_ignores_sign_field_witness:
  "Sign example_env example_client [(''a'', ''1''), (''b'', []), (''sign'', ''stale'')]
     = ''AFFDCC88244C83F871BFE4854BE9C1A5''
   \<and> Sign example_env example_client
       [(''a'', ''1''), (''b'', []), (''sign'', ''AFFDCC88244C83F871BFE4854BE9C1A5'')]
     = ''AFFDCC88244C83F871BFE4854BE9C1A5''"
  using Sign_ignores_sign_field [of example_env example_client
      "[(''a'', ''1''), (''b'', [])]" "''stale''"]
  by (simp add: Sign_example_md5 SetString_def Sign_key_def)

text \<open>
  Claim C9. With a signature type that is neither MD5 nor HMACSHA256, Sign returns the
  empty string (it has no error to report): so for a client whose type was set to such a
  value by SetSignType, whatever the parameters.
\<close>

theorem Sign_unrecognized_signType:
  "st \<noteq> MD5 E \<and> st \<noteq> HMACSHA256 E \<longrightarrow>
     Sign E (SetSignType c st) p = [] \<and> (signType c = st \<longrightarrow> Sign E c p = [])"
  by (simp add: Sign_def SetSignType_def ToUpper_def)

theorem Sign_unrecognized_signType_witness:
  "''SHA1'' \<noteq> MD5 example_env \<and> ''SHA1'' \<noteq> HMACSHA256 example_env
   \<and> Sign example_env (SetSignType example_client ''SHA1'') [(''a'', ''1''), (''b'', [])] = []"
  using Sign_unrecognized_signType [of "''SHA1''" example_env example_client
      "[(''a'', ''1''), (''b'', [])]"]
  by (simp add: example_env_def)

text \<open>
  Claim C10. When the POST inside DownloadBill or DownloadFundFlow fails, it hands back
  the empty string and the error; the empty string does not begin with \<^verbatim>\<open><\<close>, so the
  function returns, together with that error, not a nil map but the map with
  \<^verbatim>\<open>return_code\<close> SUCCESS, \<^verbatim>\<open>return_msg\<close> ok and empty \<^verbatim>\<open>data\<close>.
\<close>

theorem download_failed_post:
  "(let bill = postWithoutCert E c
        (if isSandbox (account c) then SandboxDownloadBillUrl E else DownloadBillUrl E)
        params nonce net;
        flow = postWithCert E c
        (if isSandbox (account c) then SandboxDownloadFundFlowUrl E else DownloadFundFlowUrl E)
        params [] nonce net
    in (snd (fst bill) = Some e \<longrightarrow>
          fst bill = ([], Some e) \<and>
          fst (DownloadBill E c params nonce net) =
            (Some [(''return_code'', Success), (''return_msg'', ''ok''), (''data'', [])], Some e))
       \<and> (snd (fst flow) = Some e \<longrightarrow>
          fst flow = ([], Some e) \<and>
          fst (DownloadFundFlow E c params nonce net) =
            (Some [(''return_code'', Success), (''return_msg'', ''ok''), (''data'', [])], Some e)))"
proof -
  define bill where "bill = postWithoutCert E c
        (if isSandbox (account c) then SandboxDownloadBillUrl E else DownloadBillUrl E)
        params nonce net"
  define flow where "flow = postWithCert E c
        (if isSandbox (account c) then SandboxDownloadFundFlowUrl E else DownloadFundFlowUrl E)
        params [] nonce net"
  have 1: "snd (fst bill) = Some e \<longrightarrow>
          fst bill = ([], Some e) \<and>
          fst (DownloadBill E c params nonce net) =
            (Some [(''return_code'', Success), (''return_msg'', ''ok''), (''data'', [])], Some e)"
  proof
    assume a: "snd (fst bill) = Some e"
    then have "fst (fst bill) = []"
      unfolding bill_def by (rule postWithoutCert_err_empty)
    with a have b: "fst bill = ([], Some e)" by (simp add: prod_eq_iff)
    then show "fst bill = ([], Some e) \<and>
           fst (DownloadBill E c params nonce net) =
             (Some [(''return_code'', Success), (''return_msg'', ''ok''), (''data'', [])], Some e)"
      unfolding DownloadBill_def Let_def bill_def
      by (auto simp: SetString_def split: prod.splits)
  qed
  have 2: "snd (fst flow) = Some e \<longrightarrow>
          fst flow = ([], Some e) \<and>
          fst (DownloadFundFlow E c params nonce net) =
            (Some [(''return_code'', Success), (''return_msg'', ''ok''), (''data'', [])], Some e)"
  proof
    assume a: "snd (fst flow) = Some e"
    then have "fst (fst flow) = []"
      unfolding flow_def by (rule postWithCert_err_empty)
    with a have b: "fst flow = ([], Some e)" by (simp add: prod_eq_iff)
    then show "fst flow = ([], Some e) \<and>
           fst (DownloadFundFlow E c params nonce net) =
             (Some [(''return_code'', Success), (''return_msg'', ''ok''), (''data'', [])], Some e)"
      unfolding DownloadFundFlow_def Let_def flow_def
      by (auto simp: SetString_def split: prod.splits)
  qed
  from 1 2 show ?thesis
    unfolding Let_def bill_def flow_def by (rule conjI)
qed

theorem download_failed_post_witness:
  "fst (DownloadBill example_env example_client [(''bill_date'', ''20240101'')] ''n0'' [])
     = (Some [(''return_code'', ''SUCCESS''), (''return_msg'', ''ok''), (''data'', [])],
        Some (ErrTransport ''connection refused''))
   \<and> fst (DownloadFundFlow example_env example_client [(''bill_date'', ''20240101'')] ''n0'' [])
     = (Some [(''return_code'', ''SUCCESS''), (''return_msg'', ''ok''), (''data'', [])],
        Some ErrCertDataEmpty)"
proof -
  have s: "\<not> isSandbox (account example_client)"
    and n: "certData (account example_client) = None"
    by (simp_all add: example_client_def NewClient_def NewAccount_def)
  have 1: "snd (fst (postWithoutCert example_env example_client (DownloadBillUrl example_env)
             [(''bill_date'', ''20240101'')] ''n0'' [])) = Some (ErrTransport ''connection refused'')"
    by (simp add: postWithoutCert_def Let_def example_env_def)
  have 2: "snd (fst (postWithCert example_env example_client (DownloadFundFlowUrl example_env)
             [(''bill_date'', ''20240101'')] [] ''n0'' [])) = Some ErrCertDataEmpty"
    by (simp add: postWithCert_def n)
  from download_failed_post [of example_env example_client "[(''bill_date'', ''20240101'')]"
      "''n0''" "[]" "ErrTransport ''connection refused''"] s 1
  have a: "fst (DownloadBill example_env example_client [(''bill_date'', ''20240101'')] ''n0'' [])
     = (Some [(''return_code'', ''SUCCESS''), (''return_msg'', ''ok''), (''data'', [])],
        Some (ErrTransport ''connection refused''))"
    by (simp add: Let_def Success_def)
  from download_failed_post [of example_env example_client "[(''bill_date'', ''20240101'')]"
      "''n0''" "[]" ErrCertDataEmpty] s 2
  have b: "fst (DownloadFundFlow example_env example_client [(''bill_date'', ''20240101'')]
      ''n0'' []) = (Some [(''return_code'', ''SUCCESS''), (''return_msg'', ''ok''), (''data'', [])],
        Some ErrCertDataEmpty)"
    by (simp add: Let_def Success_def)
  from a b show ?thesis by (rule conjI)
qed


end
